theory Spec2Isabelle
  imports
    Main
    "HOL-Library.Multiset"
    "HOL-Library.Char_ord"
    "HOL-Library.List_Lexorder"
begin

section \<open>Data model\<close>

subsection \<open>Bundler names and function configuration\<close>

text \<open>
  Modelled from the spec: \<^verbatim>\<open>utils/consts\<close> is not among the sources. It exports the names
  \<^verbatim>\<open>JS_BUNDLER_ESBUILD\<close>, \<^verbatim>\<open>JS_BUNDLER_ESBUILD_ZISI\<close> and \<^verbatim>\<open>JS_BUNDLER_ZISI\<close> that
  \<^verbatim>\<open>runtimes/node/index.js\<close> compares \<^verbatim>\<open>config.nodeBundler\<close> with: the delegated engine,
  the composite strategy and the Graph Builder of the spec (section 4.4, option
  \<^verbatim>\<open>strategy\<close> of section 6). They are three distinct, non-empty (truthy) strings, so they
  are the constructors of an enumeration; an absent \<^verbatim>\<open>nodeBundler\<close> (\<^verbatim>\<open>undefined\<close>) is
  \<open>None\<close>.
\<close>

datatype bundler = JS_BUNDLER_ESBUILD | JS_BUNDLER_ESBUILD_ZISI | JS_BUNDLER_ZISI

definition RUNTIME_JS :: string where
  "RUNTIME_JS = ''js''"

text \<open>
  The \<^verbatim>\<open>Config\<close> object of a function. The code reads \<^verbatim>\<open>nodeBundler\<close> and
  \<^verbatim>\<open>schedule\<close>; every other option is carried along unread.
\<close>

record config =
  nodeBundler :: "bundler option"
  schedule :: "string option"
  otherOptions :: "(string \<times> string) list"

text \<open>The empty object \<^verbatim>\<open>{}\<close> that \<^verbatim>\<open>config = {}\<close> puts in place of a missing configuration.\<close>

definition empty_config :: config where
  "empty_config = \<lparr>nodeBundler = None, schedule = None, otherOptions = []\<rparr>"

subsection \<open>Errors and asynchronous results\<close>

text \<open>
  The value a rejected promise carries. JavaScript lets any value be thrown:
  \<open>JsNullish\<close> is \<^verbatim>\<open>null\<close> or \<^verbatim>\<open>undefined\<close>, on which reading a property throws a
  \<^verbatim>\<open>TypeError\<close>; \<open>JsError text sub_errors\<close> is any other value, an error object as a
  rule, with its message and its \<^verbatim>\<open>errors\<close> property: the list of structured sub-errors
  of a bundling failure, \<open>None\<close> (\<^verbatim>\<open>undefined\<close>) on a value that has none.
\<close>

datatype js_error = JsNullish | JsError string "string list option"

text \<open>
  An \<^verbatim>\<open>async\<close> function runs in a world \<open>'w\<close> (file system, caches), which it may change,
  and either rejects (\<open>Inl\<close>) or resolves (\<open>Inr\<close>).
\<close>

type_synonym ('w, 'a) async = "'w \<Rightarrow> (js_error + 'a) \<times> 'w"

subsection \<open>Parameter and result objects\<close>

text \<open>The data fields of a \<^verbatim>\<open>FunctionSource\<close> (everything but its runtime).\<close>

record function_data =
  config :: config
  extension :: string
  filename :: string
  mainFile :: string
  name :: string
  srcDir :: string
  srcPath :: string
  stat :: nat

text \<open>The object \<^verbatim>\<open>zipFunction\<close> destructures: the function's data and the packaging options.\<close>

record zip_parameters = function_data +
  archiveFormat :: string
  basePath :: "string option"
  destFolder :: string
  pluginsModulesPath :: "string option"

text \<open>The object handed to \<^verbatim>\<open>zipZisi\<close>: the same keys without \<^verbatim>\<open>name\<close>.\<close>

record zisi_parameters =
  zisi_archiveFormat :: string
  zisi_basePath :: "string option"
  zisi_config :: config
  zisi_destFolder :: string
  zisi_extension :: string
  zisi_filename :: string
  zisi_mainFile :: string
  zisi_pluginsModulesPath :: "string option"
  zisi_srcDir :: string
  zisi_srcPath :: string
  zisi_stat :: nat

text \<open>
  What packaging one function resolves to. \<^verbatim>\<open>bundlerErrors\<close> is \<open>None\<close> while the key is
  absent or \<^verbatim>\<open>undefined\<close>; the keys a bundler adds besides are in \<open>otherFields\<close>.
\<close>

record zip_result =
  result_config :: config
  path :: string
  bundlerErrors :: "string list option"
  otherFields :: "(string \<times> string) list"

type_synonym flags = "(string \<times> bool) list"

text \<open>
  A runtime, as \<^verbatim>\<open>main.ts\<close> reads it: its \<^verbatim>\<open>name\<close> and its \<^verbatim>\<open>getSrcFiles\<close>, which is
  optional. The lister receives \<^verbatim>\<open>{ ...func, ...options }\<close>: the function's data and the
  options \<^verbatim>\<open>{ basePath, featureFlags }\<close> (a record cannot hold the runtime that holds the
  lister, so the \<^verbatim>\<open>runtime\<close> key is not passed on).
\<close>

record 'w runtime =
  runtime_name :: string
  runtime_getSrcFiles :: "(function_data \<Rightarrow> string option \<times> flags \<Rightarrow> ('w, string list) async) option"

record 'w function_source = function_data +
  runtime :: "'w runtime"

record listed_function =
  listed_name :: string
  listed_mainFile :: string
  listed_runtime :: string
  listed_extension :: string
  listed_schedule :: "string option"

record listed_function_file = listed_function +
  srcFile :: string

text \<open>The options object of \<^verbatim>\<open>listFunctions\<close> and \<^verbatim>\<open>listFunctionsFiles\<close>.\<close>

record list_functions_options =
  option_basePath :: "string option"
  option_config :: "config option"
  option_featureFlags :: "flags option"

subsection \<open>Collaborators\<close>

text \<open>
  The functions the two modules import and that are not among the sources, as
  parameters: Node's \<^verbatim>\<open>path.join\<close> and \<^verbatim>\<open>path.extname\<close>, \<^verbatim>\<open>cp-file\<close>, the two bundlers
  \<^verbatim>\<open>zipZisi\<close> and \<^verbatim>\<open>zipEsbuild\<close>, the Node lister \<^verbatim>\<open>getSrcFiles\<close> of \<^verbatim>\<open>./src_files\<close>, and
  the discovery functions of \<^verbatim>\<open>main.ts\<close>.

  Modelled from the spec: \<^verbatim>\<open>detectEsModule\<close> of \<^verbatim>\<open>./detect_es_module\<close> is missing. It is the
  \<^emph>\<open>lightweight file sniffing\<close> of section 4.4 that probes the entry file for
  static-module syntax: it reads the world, leaves it as it is, and answers with a
  boolean. Its argument is \<^verbatim>\<open>mainFile\<close>, which a caller may leave \<^verbatim>\<open>undefined\<close> (\<open>None\<close>).
\<close>

record 'w env =
  join :: "string \<Rightarrow> string \<Rightarrow> string"
  extname :: "string \<Rightarrow> string"
  detectEsModule :: "string option \<Rightarrow> 'w \<Rightarrow> bool"
  cpFile :: "string \<Rightarrow> string \<Rightarrow> ('w, unit) async"
  zipZisi :: "zisi_parameters \<Rightarrow> ('w, zip_result) async"
  zipEsbuild :: "zip_parameters \<Rightarrow> ('w, zip_result) async"
  node_getSrcFiles :: "function_data \<Rightarrow> string option \<times> flags \<Rightarrow> bundler \<Rightarrow> ('w, string list) async"
  getFlags :: "flags option \<Rightarrow> flags"
  resolveFunctionsDirectories :: "string list \<Rightarrow> string list"
  listFunctionsDirectories :: "string list \<Rightarrow> ('w, string list) async"
  getFunctionsFromPaths ::
    "string list \<Rightarrow> flags \<Rightarrow> config option \<Rightarrow> ('w, (string \<times> 'w function_source) list) async"

section \<open>The Node runtime: \<^verbatim>\<open>runtimes/node/index.js\<close>\<close>

text \<open>
  ZISI is the default bundler, except for TypeScript files and for entry files in which
  ES-module syntax is detected.
\<close>

definition getDefaultBundler :: "'w env \<Rightarrow> string \<Rightarrow> string option \<Rightarrow> 'w \<Rightarrow> bundler" where
  "getDefaultBundler e ext mainFile_opt w =
     (if ext = ''.ts'' then JS_BUNDLER_ESBUILD
      else
        let isEsModule = detectEsModule e mainFile_opt w
        in if isEsModule then JS_BUNDLER_ESBUILD else JS_BUNDLER_ZISI)"

text \<open>
  The proxy of the lister that adds a default \<^verbatim>\<open>bundler\<close>. It calls
  \<^verbatim>\<open>getDefaultBundler({ extension: parameters.extension })\<close>: no \<^verbatim>\<open>mainFile\<close> is passed.
\<close>

definition getSrcFilesWithBundler ::
  "'w env \<Rightarrow> function_data \<Rightarrow> string option \<times> flags \<Rightarrow> ('w, string list) async" where
  "getSrcFilesWithBundler e parameters options w =
     (let bundler =
        (case nodeBundler (config parameters) of
           Some b \<Rightarrow> b
         | None \<Rightarrow> getDefaultBundler e (extension parameters) None w)
      in node_getSrcFiles e parameters options bundler w)"

definition zipFunction :: "'w env \<Rightarrow> zip_parameters \<Rightarrow> ('w, zip_result) async" where
  "zipFunction e p w =
     (let bundler =
        (case nodeBundler (config p) of
           Some b \<Rightarrow> b
         | None \<Rightarrow> getDefaultBundler e (extension p) (Some (mainFile p)) w)
      in
        if extension p = ''.zip'' then
          (let destPath = join e (destFolder p) (filename p)
           in case cpFile e (srcPath p) destPath w of
                (Inl err, w') \<Rightarrow> (Inl err, w')
              | (Inr _, w') \<Rightarrow>
                  (Inr \<lparr>result_config = config p, path = destPath,
                        bundlerErrors = None, otherFields = []\<rparr>, w'))
        else if bundler = JS_BUNDLER_ZISI then
          zipZisi e
            \<lparr>zisi_archiveFormat = archiveFormat p,
             zisi_basePath = basePath p,
             zisi_config = config p,
             zisi_destFolder = destFolder p,
             zisi_extension = extension p,
             zisi_filename = filename p,
             zisi_mainFile = mainFile p,
             zisi_pluginsModulesPath = pluginsModulesPath p,
             zisi_srcDir = srcDir p,
             zisi_srcPath = srcPath p,
             zisi_stat = stat p\<rparr> w
        else zipEsbuild e p w)"

text \<open>
  \<^verbatim>\<open>{ ...parameters, config: { ...config, nodeBundler: b } }\<close>: the same function with one
  bundler pinned.
\<close>

definition with_bundler :: "bundler \<Rightarrow> zip_parameters \<Rightarrow> zip_parameters" where
  "with_bundler b p = p\<lparr>config := (config p)\<lparr>nodeBundler := Some b\<rparr>\<rparr>"

text \<open>
  The exported \<^verbatim>\<open>zipFunction\<close> of the runtime. The inner \<^verbatim>\<open>try\<close> runs in the world the failed
  first attempt has left behind. \<^verbatim>\<open>esbuildError.errors\<close> is read inside the inner \<^verbatim>\<open>try\<close>:
  on a nullish \<^verbatim>\<open>esbuildError\<close> the read throws, the inner \<^verbatim>\<open>catch\<close> takes the
  \<^verbatim>\<open>TypeError\<close> and rethrows \<^verbatim>\<open>esbuildError\<close>.
\<close>

definition zipWithFunctionWithFallback :: "'w env \<Rightarrow> zip_parameters \<Rightarrow> ('w, zip_result) async" where
  "zipWithFunctionWithFallback e p w =
     (if nodeBundler (config p) \<noteq> Some JS_BUNDLER_ESBUILD_ZISI then zipFunction e p w
      else
        case zipFunction e (with_bundler JS_BUNDLER_ESBUILD p) w of
          (Inr result, w1) \<Rightarrow> (Inr result, w1)
        | (Inl esbuildError, w1) \<Rightarrow>
            (case zipFunction e (with_bundler JS_BUNDLER_ZISI p) w1 of
               (Inr data, w2) \<Rightarrow>
                 (case esbuildError of
                    JsError text sub_errors \<Rightarrow> (Inr (data\<lparr>bundlerErrors := sub_errors\<rparr>), w2)
                  | JsNullish \<Rightarrow> (Inl esbuildError, w2))
             | (Inl zisiError, w2) \<Rightarrow> (Inl esbuildError, w2)))"

text \<open>
  \<^verbatim>\<open>module.exports\<close>, as far as \<^verbatim>\<open>main.ts\<close> reads it; the export
  \<^verbatim>\<open>zipFunction: zipWithFunctionWithFallback\<close> is the definition above.
\<close>

definition node_runtime :: "'w env \<Rightarrow> 'w runtime" where
  "node_runtime e =
     \<lparr>runtime_name = RUNTIME_JS,
      runtime_getSrcFiles = Some (getSrcFilesWithBundler e)\<rparr>"

section \<open>Listing functions: \<^verbatim>\<open>main.ts\<close>\<close>

definition getListedFunction :: "'w function_source \<Rightarrow> listed_function" where
  "getListedFunction func =
     \<lparr>listed_name = name func,
      listed_mainFile = mainFile func,
      listed_runtime = runtime_name (runtime func),
      listed_extension = extension func,
      listed_schedule = schedule (config func)\<rparr>"

text \<open>
  The source files of one function: the function's own path for an archive and for a
  runtime without a lister, the runtime's answer otherwise.
\<close>

definition getSrcFiles ::
  "'w function_source \<Rightarrow> string option \<times> flags \<Rightarrow> ('w, string list) async" where
  "getSrcFiles func options w =
     (let getRuntimeSrcFiles = runtime_getSrcFiles (runtime func)
      in if extension func = ''.zip'' then (Inr [srcPath func], w)
         else
           case getRuntimeSrcFiles of
             None \<Rightarrow> (Inr [srcPath func], w)
           | Some lister \<Rightarrow> lister (function_data.truncate func) options w)"

definition getListedFunctionFiles ::
  "'w env \<Rightarrow> 'w function_source \<Rightarrow> string option \<times> flags \<Rightarrow> ('w, listed_function_file list) async" where
  "getListedFunctionFiles e func options w =
     (case getSrcFiles func options w of
        (Inl err, w') \<Rightarrow> (Inl err, w')
      | (Inr srcFiles, w') \<Rightarrow>
          (Inr (map (\<lambda>file.
                  \<lparr>listed_name = name func,
                   listed_mainFile = mainFile func,
                   listed_runtime = runtime_name (runtime func),
                   listed_extension = extname e file,
                   listed_schedule = None,
                   srcFile = file\<rparr>) srcFiles), w'))"

text \<open>
  \<^verbatim>\<open>Promise.all\<close> over the tasks that \<^verbatim>\<open>map\<close> has started in list order. Every task
  runs, whether another one rejects or not, and the result resolves to all values, in
  list order, exactly when no task rejects. The tasks are taken here as indivisible:
  each runs to its end in the world the one before it has left, so that the first
  rejection in time is the first in list order. The code lets the tasks interleave at
  their suspension points, which can change the order of their effects on the world
  and which of several rejections is surfaced; the values resolved to do not depend on
  that, and nothing below rests on the order of effects or on the choice of rejection.
\<close>

fun promise_all :: "('w, 'a) async list \<Rightarrow> ('w, 'a list) async" where
  "promise_all [] w = (Inr [], w)"
| "promise_all (task # tasks) w =
     (case task w of
        (r, w1) \<Rightarrow>
          (case promise_all tasks w1 of
             (rs, w2) \<Rightarrow>
               (case r of
                  Inl err \<Rightarrow> (Inl err, w2)
                | Inr v \<Rightarrow>
                    (case rs of
                       Inl err \<Rightarrow> (Inl err, w2)
                     | Inr vs \<Rightarrow> (Inr (v # vs), w2)))))"

text \<open>
  \<^verbatim>\<open>functions\<close> is a \<^verbatim>\<open>Map\<close> from names to functions; \<^verbatim>\<open>[...functions.values()]\<close> lists its
  values in insertion order.
\<close>

definition listFunctions ::
  "'w env \<Rightarrow> string list \<Rightarrow> list_functions_options \<Rightarrow> ('w, listed_function list) async" where
  "listFunctions e relativeSrcFolders opts w =
     (let featureFlags = getFlags e (option_featureFlags opts);
          srcFolders = resolveFunctionsDirectories e relativeSrcFolders
      in case listFunctionsDirectories e srcFolders w of
           (Inl err, w1) \<Rightarrow> (Inl err, w1)
         | (Inr paths, w1) \<Rightarrow>
             (case getFunctionsFromPaths e paths featureFlags (option_config opts) w1 of
                (Inl err, w2) \<Rightarrow> (Inl err, w2)
              | (Inr functions, w2) \<Rightarrow>
                  (Inr (map getListedFunction (map snd functions)), w2)))"

definition listFunctionsFiles ::
  "'w env \<Rightarrow> string list \<Rightarrow> list_functions_options \<Rightarrow> ('w, listed_function_file list) async" where
  "listFunctionsFiles e relativeSrcFolders opts w =
     (let featureFlags = getFlags e (option_featureFlags opts);
          srcFolders = resolveFunctionsDirectories e relativeSrcFolders
      in case listFunctionsDirectories e srcFolders w of
           (Inl err, w1) \<Rightarrow> (Inl err, w1)
         | (Inr paths, w1) \<Rightarrow>
             (case getFunctionsFromPaths e paths featureFlags (option_config opts) w1 of
                (Inl err, w2) \<Rightarrow> (Inl err, w2)
              | (Inr functions, w2) \<Rightarrow>
                  (case promise_all
                          (map (\<lambda>func. getListedFunctionFiles e func
                                          (option_basePath opts, featureFlags))
                             (map snd functions)) w2 of
                     (Inl err, w3) \<Rightarrow> (Inl err, w3)
                   | (Inr listedFunctionsFiles, w3) \<Rightarrow> (Inr (concat listedFunctionsFiles), w3))))"

section \<open>The archive assembler\<close>

text \<open>
  Modelled from the spec: the code that writes an archive (\<^verbatim>\<open>zipZisi\<close>, \<^verbatim>\<open>zipEsbuild\<close> and the
  archive helpers under them) is missing; the repository's tests ask of it that two runs
  on one fixture give one checksum. Sections 3 and 4.5 of the spec: the entries of an
  archive are \<^verbatim>\<open>{name, mode, mtime, bytes}\<close>; the assembler sorts all output entries by
  path and writes each with its original file mode and a fixed, non-varying modification
  timestamp, so that wall-clock time never reaches the archive; for a compiled-binary
  runtime it adds one metadata entry that holds the runtime identifier (the tests read it
  as the file \<^verbatim>\<open>netlify-toolchain\<close> with content \<^verbatim>\<open>{"runtime":"<id>"}\<close>).
\<close>

record output_file =
  file_path :: string
  file_mode :: nat
  file_bytes :: string

record archive_entry =
  entry_name :: string
  entry_mode :: nat
  entry_mtime :: nat
  entry_bytes :: string

text \<open>The fixed timestamp and the mode of the metadata entry: the spec leaves both values open.\<close>

definition FIXED_MTIME :: nat where
  "FIXED_MTIME = 0"

definition TOOLCHAIN_MODE :: nat where
  "TOOLCHAIN_MODE = 420"

definition toolchain_entry :: "string \<Rightarrow> archive_entry" where
  \<open>toolchain_entry runtime_id =
     \<lparr>entry_name = ''netlify-toolchain'',
      entry_mode = TOOLCHAIN_MODE,
      entry_mtime = FIXED_MTIME,
      entry_bytes = ''{"runtime":"'' @ runtime_id @ ''"}''\<rparr>\<close>

text \<open>
  \<open>assemble now compiled files\<close>: \<open>now\<close> is the wall-clock time of the run, \<open>compiled\<close> the
  identifier of a compiled-binary runtime (\<open>None\<close> for a scripting runtime), \<open>files\<close> the
  output of bundling in the order the traversal produced it.
\<close>

definition assemble :: "nat \<Rightarrow> string option \<Rightarrow> output_file list \<Rightarrow> archive_entry list" where
  "assemble now compiled files =
     map (\<lambda>f. \<lparr>entry_name = file_path f, entry_mode = file_mode f,
                entry_mtime = FIXED_MTIME, entry_bytes = file_bytes f\<rparr>)
       (sort_key file_path files)
     @ (case compiled of None \<Rightarrow> [] | Some runtime_id \<Rightarrow> [toolchain_entry runtime_id])"

text \<open>
  The bytes of the archive file: the generic archive writer adds the entries one after
  the other, \<open>write_entry\<close> being its encoding of one entry.
\<close>

definition archive_bytes :: "(archive_entry \<Rightarrow> string) \<Rightarrow> archive_entry list \<Rightarrow> string" where
  "archive_bytes write_entry entries = concat (map write_entry entries)"

section \<open>A sample environment\<close>

text \<open>
  A concrete world and concrete collaborators, on which the theorems below are run: the
  world is a small file system together with the log of the collaborators called so far.
\<close>

datatype call =
    CallCpFile string string
  | CallZipZisi string
  | CallZipEsbuild string
  | CallNodeGetSrcFiles string bundler
  | CallListFunctionsDirectories "string list"
  | CallGetFunctionsFromPaths "string list"

record sample_world =
  files :: "(string \<times> string) list"
  calls :: "call list"

definition logged :: "call \<Rightarrow> sample_world \<Rightarrow> sample_world" where
  "logged c w = w\<lparr>calls := calls w @ [c]\<rparr>"

definition sample_join :: "string \<Rightarrow> string \<Rightarrow> string" where
  "sample_join a b = a @ ''/'' @ b"

definition sample_extname :: "string \<Rightarrow> string" where
  "sample_extname s =
     (let suffix = takeWhile (\<lambda>c. c \<noteq> CHR ''.'') (rev s)
      in if length suffix = length s then [] else CHR ''.'' # rev suffix)"

text \<open>A file counts as an ES module when it starts with an \<^verbatim>\<open>export\<close>; no file, no module.\<close>

definition sample_detectEsModule :: "string option \<Rightarrow> sample_world \<Rightarrow> bool" where
  "sample_detectEsModule mainFile_opt w =
     (case mainFile_opt of
        None \<Rightarrow> False
      | Some file \<Rightarrow>
          (case map_of (files w) file of
             None \<Rightarrow> False
           | Some source \<Rightarrow> take 7 source = ''export ''))"

definition sample_cpFile :: "string \<Rightarrow> string \<Rightarrow> (sample_world, unit) async" where
  "sample_cpFile source destination w =
     (case map_of (files w) source of
        None \<Rightarrow> (Inl (JsError ''ENOENT'' None), logged (CallCpFile source destination) w)
      | Some bytes \<Rightarrow>
          (Inr (), logged (CallCpFile source destination)
                     (w\<lparr>files := (destination, bytes) # files w\<rparr>)))"

definition sample_zipEsbuild :: "bool \<Rightarrow> zip_parameters \<Rightarrow> (sample_world, zip_result) async" where
  "sample_zipEsbuild succeeds p w =
     (if succeeds then
        Inr \<lparr>result_config = config p, path = sample_join (destFolder p) (name p @ ''.zip''),
             bundlerErrors = None, otherFields = [(''bundler'', ''esbuild'')]\<rparr>
      else Inl (JsError ''Build failed with 1 error'' (Some [''Could not resolve left-pad''])),
      logged (CallZipEsbuild (srcPath p)) w)"

definition sample_zipZisi :: "bool \<Rightarrow> zisi_parameters \<Rightarrow> (sample_world, zip_result) async" where
  "sample_zipZisi succeeds p w =
     (if succeeds then
        Inr \<lparr>result_config = zisi_config p,
             path = sample_join (zisi_destFolder p) (zisi_filename p @ ''.zip''),
             bundlerErrors = None, otherFields = [(''bundler'', ''zisi'')]\<rparr>
      else Inl (JsError ''Cannot find module left-pad'' None),
      logged (CallZipZisi (zisi_srcPath p)) w)"

text \<open>With ZISI every required file is listed, with esbuild the main file only.\<close>

definition sample_node_getSrcFiles ::
  "function_data \<Rightarrow> string option \<times> flags \<Rightarrow> bundler \<Rightarrow> (sample_world, string list) async" where
  "sample_node_getSrcFiles parameters options b w =
     (Inr (if b = JS_BUNDLER_ZISI
           then [sample_join (srcDir parameters) ''three.json'', mainFile parameters]
           else [mainFile parameters]),
      logged (CallNodeGetSrcFiles (srcPath parameters) b) w)"

text \<open>The environment without discovery; the two flags say which bundlers succeed.\<close>

definition sample_base_env :: "bool \<Rightarrow> bool \<Rightarrow> sample_world env" where
  "sample_base_env esbuild_ok zisi_ok =
     \<lparr>join = sample_join,
      extname = sample_extname,
      detectEsModule = sample_detectEsModule,
      cpFile = sample_cpFile,
      zipZisi = sample_zipZisi zisi_ok,
      zipEsbuild = sample_zipEsbuild esbuild_ok,
      node_getSrcFiles = sample_node_getSrcFiles,
      getFlags = (\<lambda>input. case input of None \<Rightarrow> [] | Some given \<Rightarrow> given),
      resolveFunctionsDirectories = (\<lambda>folders. folders),
      listFunctionsDirectories =
        (\<lambda>folders w. (Inr [], logged (CallListFunctionsDirectories folders) w)),
      getFunctionsFromPaths =
        (\<lambda>paths featureFlags cfg w. (Inr [], logged (CallGetFunctionsFromPaths paths) w))\<rparr>"

definition sample_function ::
  "string \<Rightarrow> string \<Rightarrow> string \<Rightarrow> config \<Rightarrow> sample_world runtime \<Rightarrow> sample_world function_source" where
  "sample_function function_name main ext cfg rt =
     \<lparr>config = cfg, extension = ext, filename = function_name, mainFile = main,
      name = function_name, srcDir = ''/list/'' @ function_name,
      srcPath = ''/list/'' @ function_name, stat = 0, runtime = rt\<rparr>"

text \<open>Three functions of the tests' \<^verbatim>\<open>list\<close> fixture: a Go binary, an archive, a Node function.\<close>

definition sample_functions :: "(string \<times> sample_world function_source) list" where
  "sample_functions =
     [(''/list/test'',
       sample_function ''test'' ''/list/test'' [] empty_config
         \<lparr>runtime_name = ''go'', runtime_getSrcFiles = None\<rparr>),
      (''/list/test.zip'',
       sample_function ''test.zip'' ''/list/test.zip'' ''.zip'' empty_config
         (node_runtime (sample_base_env True True))),
      (''/list/two'',
       sample_function ''two'' ''/list/two/two.js'' ''.js''
         (empty_config\<lparr>schedule := Some ''@daily''\<rparr>)
         (node_runtime (sample_base_env True True)))]"

definition sample_env :: "bool \<Rightarrow> bool \<Rightarrow> sample_world env" where
  "sample_env esbuild_ok zisi_ok =
     (sample_base_env esbuild_ok zisi_ok)
       \<lparr>listFunctionsDirectories :=
          (\<lambda>folders w.
             (Inr (map (\<lambda>folder. sample_join folder ''*'') folders),
              logged (CallListFunctionsDirectories folders) w)),
        getFunctionsFromPaths :=
          (\<lambda>paths featureFlags cfg w.
             (Inr sample_functions, logged (CallGetFunctionsFromPaths paths) w))\<rparr>"

text \<open>An environment in which esbuild rejects with \<^verbatim>\<open>undefined\<close> and ZISI succeeds.\<close>

definition sample_nullish_env :: "sample_world env" where
  "sample_nullish_env =
     (sample_env False True)
       \<lparr>zipEsbuild := (\<lambda>p w. (Inl JsNullish, logged (CallZipEsbuild (srcPath p)) w))\<rparr>"

definition sample_files :: sample_world where
  "sample_files =
     \<lparr>files =
        [(''/fns/hello.js'', ''export const handler = 1''),
         (''/fns/plain.js'', ''module.exports = 1''),
         (''/fns/typed.ts'', ''const handler: number = 1''),
         (''/fns/packed.zip'', ''PK-archive-bytes'')],
      calls = []\<rparr>"

text \<open>The parameters of packaging the function \<open>/fns/<name><ext>\<close> into \<open>/out\<close>.\<close>

definition sample_parameters :: "string \<Rightarrow> string \<Rightarrow> config \<Rightarrow> zip_parameters" where
  "sample_parameters function_name ext cfg =
     \<lparr>config = cfg, extension = ext, filename = function_name @ ext,
      mainFile = ''/fns/'' @ function_name @ ext, name = function_name,
      srcDir = ''/fns'', srcPath = ''/fns/'' @ function_name @ ext, stat = 0,
      archiveFormat = ''zip'', basePath = None, destFolder = ''/out'',
      pluginsModulesPath = None\<rparr>"

definition pinned :: "bundler \<Rightarrow> config" where
  "pinned b = empty_config\<lparr>nodeBundler := Some b\<rparr>"

section \<open>Vocabulary of the statements\<close>

text \<open>The object literal that \<^verbatim>\<open>zipFunction\<close> hands to \<^verbatim>\<open>zipZisi\<close>.\<close>

definition zisi_parameters_of :: "zip_parameters \<Rightarrow> zisi_parameters" where
  "zisi_parameters_of p =
     \<lparr>zisi_archiveFormat = archiveFormat p,
      zisi_basePath = basePath p,
      zisi_config = config p,
      zisi_destFolder = destFolder p,
      zisi_extension = extension p,
      zisi_filename = filename p,
      zisi_mainFile = mainFile p,
      zisi_pluginsModulesPath = pluginsModulesPath p,
      zisi_srcDir = srcDir p,
      zisi_srcPath = srcPath p,
      zisi_stat = stat p\<rparr>"

text \<open>What copying a pre-archived function resolves to: \<^verbatim>\<open>{ config, path: destPath }\<close>.\<close>

definition passthrough_result :: "'w env \<Rightarrow> zip_parameters \<Rightarrow> zip_result" where
  "passthrough_result e p =
     \<lparr>result_config = config p, path = join e (destFolder p) (filename p),
      bundlerErrors = None, otherFields = []\<rparr>"

text \<open>The records that \<^verbatim>\<open>getListedFunctionFiles\<close> makes of the source files of a function.\<close>

definition listed_files_of :: "'w env \<Rightarrow> 'w function_source \<Rightarrow> string list \<Rightarrow> listed_function_file list" where
  "listed_files_of e func srcFiles =
     map (\<lambda>file.
            \<lparr>listed_name = name func,
             listed_mainFile = mainFile func,
             listed_runtime = runtime_name (runtime func),
             listed_extension = extname e file,
             listed_schedule = None,
             srcFile = file\<rparr>) srcFiles"

section \<open>Evaluation rules of the sample environment\<close>

lemmas sample_defs =
  sample_env_def sample_base_env_def sample_parameters_def sample_files_def pinned_def
  empty_config_def sample_join_def sample_extname_def sample_detectEsModule_def
  sample_cpFile_def sample_zipEsbuild_def sample_zipZisi_def sample_node_getSrcFiles_def
  logged_def with_bundler_def zisi_parameters_of_def passthrough_result_def

section \<open>Packaging one function\<close>

lemma zipFunction_archive:
  assumes "extension p = ''.zip''"
  shows "zipFunction e p w =
           (case cpFile e (srcPath p) (join e (destFolder p) (filename p)) w of
              (Inl err, w') \<Rightarrow> (Inl err, w')
            | (Inr done, w') \<Rightarrow> (Inr (passthrough_result e p), w'))"
  using assms by (simp add: zipFunction_def passthrough_result_def split: prod.splits sum.splits)

lemma zipFunction_pinned:
  assumes "extension p \<noteq> ''.zip''" and "nodeBundler (config p) = Some b"
  shows "zipFunction e p w =
           (if b = JS_BUNDLER_ZISI then zipZisi e (zisi_parameters_of p) w
            else zipEsbuild e p w)"
  using assms by (simp add: zipFunction_def zisi_parameters_of_def)

lemma zipFunction_default:
  assumes "extension p \<noteq> ''.zip''" and "nodeBundler (config p) = None"
  shows "zipFunction e p w =
           (if getDefaultBundler e (extension p) (Some (mainFile p)) w = JS_BUNDLER_ZISI
            then zipZisi e (zisi_parameters_of p) w
            else zipEsbuild e p w)"
  using assms by (simp add: zipFunction_def zisi_parameters_of_def)

lemma with_bundler_fields [simp]:
  "nodeBundler (config (with_bundler b p)) = Some b"
  "extension (with_bundler b p) = extension p"
  "srcPath (with_bundler b p) = srcPath p"
  "destFolder (with_bundler b p) = destFolder p"
  "filename (with_bundler b p) = filename p"
  by (simp_all add: with_bundler_def)

text \<open>
  The two attempts of the composite strategy, at the level of the engines: the first is
  one call of \<^verbatim>\<open>zipEsbuild\<close>, the retry one call of \<^verbatim>\<open>zipZisi\<close>.
\<close>

lemma composite_attempts_are_engines:
  assumes "extension p \<noteq> ''.zip''"
  shows "zipFunction e (with_bundler JS_BUNDLER_ESBUILD p) w =
           zipEsbuild e (with_bundler JS_BUNDLER_ESBUILD p) w"
    and "zipFunction e (with_bundler JS_BUNDLER_ZISI p) w =
           zipZisi e (zisi_parameters_of (with_bundler JS_BUNDLER_ZISI p)) w"
  using assms by (simp_all add: zipFunction_pinned)

text \<open>
  C1. Under the composite strategy (\<^verbatim>\<open>nodeBundler\<close> is \<^verbatim>\<open>JS_BUNDLER_ESBUILD_ZISI\<close>), when
  the attempt with esbuild fails and the retry with ZISI fails as well, the caller gets
  the error of the esbuild attempt, not the error of the retry; the world is the one the
  two attempts leave behind.
\<close>

theorem fallback_both_fail_surfaces_primary:
  assumes "nodeBundler (config p) = Some JS_BUNDLER_ESBUILD_ZISI"
    and "zipFunction e (with_bundler JS_BUNDLER_ESBUILD p) w = (Inl esbuildError, w1)"
    and "zipFunction e (with_bundler JS_BUNDLER_ZISI p) w1 = (Inl zisiError, w2)"
  shows "zipWithFunctionWithFallback e p w = (Inl esbuildError, w2)"
  using assms by (simp add: zipWithFunctionWithFallback_def)

theorem fallback_both_fail_surfaces_primary_witness:
  "nodeBundler (config (sample_parameters ''plain'' ''.js'' (pinned JS_BUNDLER_ESBUILD_ZISI)))
     = Some JS_BUNDLER_ESBUILD_ZISI
   \<and> zipFunction (sample_env False False)
        (with_bundler JS_BUNDLER_ESBUILD
           (sample_parameters ''plain'' ''.js'' (pinned JS_BUNDLER_ESBUILD_ZISI)))
        sample_files
      = (Inl (JsError ''Build failed with 1 error'' (Some [''Could not resolve left-pad''])),
         sample_files\<lparr>calls := [CallZipEsbuild ''/fns/plain.js'']\<rparr>)
   \<and> zipFunction (sample_env False False)
        (with_bundler JS_BUNDLER_ZISI
           (sample_parameters ''plain'' ''.js'' (pinned JS_BUNDLER_ESBUILD_ZISI)))
        (sample_files\<lparr>calls := [CallZipEsbuild ''/fns/plain.js'']\<rparr>)
      = (Inl (JsError ''Cannot find module left-pad'' None),
         sample_files\<lparr>calls := [CallZipEsbuild ''/fns/plain.js'', CallZipZisi ''/fns/plain.js'']\<rparr>)
   \<and> zipWithFunctionWithFallback (sample_env False False)
        (sample_parameters ''plain'' ''.js'' (pinned JS_BUNDLER_ESBUILD_ZISI)) sample_files
      = (Inl (JsError ''Build failed with 1 error'' (Some [''Could not resolve left-pad''])),
         sample_files\<lparr>calls := [CallZipEsbuild ''/fns/plain.js'', CallZipZisi ''/fns/plain.js'']\<rparr>)"
proof -
  let ?p = "sample_parameters ''plain'' ''.js'' (pinned JS_BUNDLER_ESBUILD_ZISI)"
  have composite: "nodeBundler (config ?p) = Some JS_BUNDLER_ESBUILD_ZISI"
    by (simp add: sample_defs)
  have first: "zipFunction (sample_env False False) (with_bundler JS_BUNDLER_ESBUILD ?p) sample_files
      = (Inl (JsError ''Build failed with 1 error'' (Some [''Could not resolve left-pad''])),
         sample_files\<lparr>calls := [CallZipEsbuild ''/fns/plain.js'']\<rparr>)"
    by (simp add: zipFunction_def sample_defs)
  have retry: "zipFunction (sample_env False False) (with_bundler JS_BUNDLER_ZISI ?p)
        (sample_files\<lparr>calls := [CallZipEsbuild ''/fns/plain.js'']\<rparr>)
      = (Inl (JsError ''Cannot find module left-pad'' None),
         sample_files\<lparr>calls := [CallZipEsbuild ''/fns/plain.js'', CallZipZisi ''/fns/plain.js'']\<rparr>)"
    by (simp add: zipFunction_def sample_defs)
  show ?thesis
    using fallback_both_fail_surfaces_primary [OF composite first retry] composite first retry
    by simp
qed
text \<open>
  C2, as amended. For a function that is not pre-archived and whose configuration
  selects the composite strategy, the orchestrator calls \<^verbatim>\<open>zipEsbuild\<close> first, in the world
  of the call: when it succeeds its result is returned as it is; when it fails with an
  error value (one that is neither \<^verbatim>\<open>null\<close> nor \<^verbatim>\<open>undefined\<close>) and the retry, one call of
  \<^verbatim>\<open>zipZisi\<close> in the world the failure has left, succeeds, the retry's result is returned
  with \<^verbatim>\<open>bundlerErrors\<close> set to the \<^verbatim>\<open>errors\<close> of the esbuild failure.
\<close>

theorem fallback_retry_result_carries_primary_errors:
  assumes "nodeBundler (config p) = Some JS_BUNDLER_ESBUILD_ZISI"
    and "extension p \<noteq> ''.zip''"
  shows "(zipEsbuild e (with_bundler JS_BUNDLER_ESBUILD p) w = (Inr result, w1)
            \<longrightarrow> zipWithFunctionWithFallback e p w = (Inr result, w1))
       \<and> (zipEsbuild e (with_bundler JS_BUNDLER_ESBUILD p) w = (Inl (JsError text sub_errors), w1)
            \<longrightarrow> zipZisi e (zisi_parameters_of (with_bundler JS_BUNDLER_ZISI p)) w1 = (Inr data, w2)
            \<longrightarrow> zipWithFunctionWithFallback e p w
                  = (Inr (data\<lparr>bundlerErrors := sub_errors\<rparr>), w2))"
  using assms
  by (simp add: zipWithFunctionWithFallback_def composite_attempts_are_engines)

theorem fallback_retry_result_carries_primary_errors_witness:
  "nodeBundler (config (sample_parameters ''plain'' ''.js'' (pinned JS_BUNDLER_ESBUILD_ZISI)))
     = Some JS_BUNDLER_ESBUILD_ZISI
   \<and> extension (sample_parameters ''plain'' ''.js'' (pinned JS_BUNDLER_ESBUILD_ZISI)) \<noteq> ''.zip''
   \<and> zipEsbuild (sample_env True True)
        (with_bundler JS_BUNDLER_ESBUILD
           (sample_parameters ''plain'' ''.js'' (pinned JS_BUNDLER_ESBUILD_ZISI)))
        sample_files
      = (Inr \<lparr>result_config = pinned JS_BUNDLER_ESBUILD, path = ''/out/plain.zip'',
              bundlerErrors = None, otherFields = [(''bundler'', ''esbuild'')]\<rparr>,
         sample_files\<lparr>calls := [CallZipEsbuild ''/fns/plain.js'']\<rparr>)
   \<and> zipWithFunctionWithFallback (sample_env True True)
        (sample_parameters ''plain'' ''.js'' (pinned JS_BUNDLER_ESBUILD_ZISI)) sample_files
      = (Inr \<lparr>result_config = pinned JS_BUNDLER_ESBUILD, path = ''/out/plain.zip'',
              bundlerErrors = None, otherFields = [(''bundler'', ''esbuild'')]\<rparr>,
         sample_files\<lparr>calls := [CallZipEsbuild ''/fns/plain.js'']\<rparr>)
   \<and> zipEsbuild (sample_env False True)
        (with_bundler JS_BUNDLER_ESBUILD
           (sample_parameters ''plain'' ''.js'' (pinned JS_BUNDLER_ESBUILD_ZISI)))
        sample_files
      = (Inl (JsError ''Build failed with 1 error'' (Some [''Could not resolve left-pad''])),
         sample_files\<lparr>calls := [CallZipEsbuild ''/fns/plain.js'']\<rparr>)
   \<and> zipZisi (sample_env False True)
        (zisi_parameters_of
           (with_bundler JS_BUNDLER_ZISI
              (sample_parameters ''plain'' ''.js'' (pinned JS_BUNDLER_ESBUILD_ZISI))))
        (sample_files\<lparr>calls := [CallZipEsbuild ''/fns/plain.js'']\<rparr>)
      = (Inr \<lparr>result_config = pinned JS_BUNDLER_ZISI, path = ''/out/plain.js.zip'',
              bundlerErrors = None, otherFields = [(''bundler'', ''zisi'')]\<rparr>,
         sample_files\<lparr>calls := [CallZipEsbuild ''/fns/plain.js'', CallZipZisi ''/fns/plain.js'']\<rparr>)
   \<and> zipWithFunctionWithFallback (sample_env False True)
        (sample_parameters ''plain'' ''.js'' (pinned JS_BUNDLER_ESBUILD_ZISI)) sample_files
      = (Inr \<lparr>result_config = pinned JS_BUNDLER_ZISI, path = ''/out/plain.js.zip'',
              bundlerErrors = Some [''Could not resolve left-pad''],
              otherFields = [(''bundler'', ''zisi'')]\<rparr>,
         sample_files\<lparr>calls := [CallZipEsbuild ''/fns/plain.js'', CallZipZisi ''/fns/plain.js'']\<rparr>)"
proof -
  let ?p = "sample_parameters ''plain'' ''.js'' (pinned JS_BUNDLER_ESBUILD_ZISI)"
  let ?w1 = "sample_files\<lparr>calls := [CallZipEsbuild ''/fns/plain.js'']\<rparr>"
  let ?w2 = "sample_files\<lparr>calls := [CallZipEsbuild ''/fns/plain.js'', CallZipZisi ''/fns/plain.js'']\<rparr>"
  have composite: "nodeBundler (config ?p) = Some JS_BUNDLER_ESBUILD_ZISI"
    by (simp add: sample_defs)
  have source: "extension ?p \<noteq> ''.zip''"
    by (simp add: sample_defs)
  have first_ok: "zipEsbuild (sample_env True True) (with_bundler JS_BUNDLER_ESBUILD ?p) sample_files
      = (Inr \<lparr>result_config = pinned JS_BUNDLER_ESBUILD, path = ''/out/plain.zip'',
              bundlerErrors = None, otherFields = [(''bundler'', ''esbuild'')]\<rparr>, ?w1)"
    by (simp add: sample_defs)
  have first_fails: "zipEsbuild (sample_env False True) (with_bundler JS_BUNDLER_ESBUILD ?p) sample_files
      = (Inl (JsError ''Build failed with 1 error'' (Some [''Could not resolve left-pad''])), ?w1)"
    by (simp add: sample_defs)
  have retry_ok: "zipZisi (sample_env False True)
        (zisi_parameters_of (with_bundler JS_BUNDLER_ZISI ?p)) ?w1
      = (Inr \<lparr>result_config = pinned JS_BUNDLER_ZISI, path = ''/out/plain.js.zip'',
              bundlerErrors = None, otherFields = [(''bundler'', ''zisi'')]\<rparr>, ?w2)"
    by (simp add: sample_defs)
  from fallback_retry_result_carries_primary_errors
         [OF composite source, of "sample_env True True"] first_ok
  have one: "zipWithFunctionWithFallback (sample_env True True) ?p sample_files
      = (Inr \<lparr>result_config = pinned JS_BUNDLER_ESBUILD, path = ''/out/plain.zip'',
              bundlerErrors = None, otherFields = [(''bundler'', ''esbuild'')]\<rparr>, ?w1)"
    by blast
  from fallback_retry_result_carries_primary_errors
         [OF composite source, of "sample_env False True"] first_fails retry_ok
  have two: "zipWithFunctionWithFallback (sample_env False True) ?p sample_files
      = (Inr (\<lparr>result_config = pinned JS_BUNDLER_ZISI, path = ''/out/plain.js.zip'',
              bundlerErrors = None, otherFields = [(''bundler'', ''zisi'')]\<rparr>
                \<lparr>bundlerErrors := Some [''Could not resolve left-pad'']\<rparr>), ?w2)"
    by blast
  from composite source first_ok first_fails retry_ok one two show ?thesis by simp
qed

text \<open>
  C2, as stated, fails in two places. For the pre-archived function \<^verbatim>\<open>/fns/packed.zip\<close>
  under the composite strategy no bundler is attempted, first or later: the archive is
  copied and \<^verbatim>\<open>cpFile\<close> is the only collaborator called, although esbuild would fail and
  ZISI succeed. And when \<^verbatim>\<open>zipEsbuild\<close> rejects with \<^verbatim>\<open>undefined\<close>, reading
  \<^verbatim>\<open>esbuildError.errors\<close> throws inside the inner \<^verbatim>\<open>try\<close>: the retry with ZISI has succeeded,
  yet the call rejects.
\<close>

theorem fallback_retry_counterexample:
  "nodeBundler (config (sample_parameters ''packed'' ''.zip'' (pinned JS_BUNDLER_ESBUILD_ZISI)))
     = Some JS_BUNDLER_ESBUILD_ZISI
   \<and> fst (zipWithFunctionWithFallback (sample_env False True)
            (sample_parameters ''packed'' ''.zip'' (pinned JS_BUNDLER_ESBUILD_ZISI)) sample_files)
      = Inr \<lparr>result_config = pinned JS_BUNDLER_ESBUILD, path = ''/out/packed.zip'',
             bundlerErrors = None, otherFields = []\<rparr>
   \<and> calls (snd (zipWithFunctionWithFallback (sample_env False True)
            (sample_parameters ''packed'' ''.zip'' (pinned JS_BUNDLER_ESBUILD_ZISI)) sample_files))
      = [CallCpFile ''/fns/packed.zip'' ''/out/packed.zip'']
   \<and> nodeBundler (config (sample_parameters ''plain'' ''.js'' (pinned JS_BUNDLER_ESBUILD_ZISI)))
     = Some JS_BUNDLER_ESBUILD_ZISI
   \<and> fst (zipEsbuild sample_nullish_env
            (with_bundler JS_BUNDLER_ESBUILD
               (sample_parameters ''plain'' ''.js'' (pinned JS_BUNDLER_ESBUILD_ZISI)))
            sample_files)
      = Inl JsNullish
   \<and> fst (zipZisi sample_nullish_env
            (zisi_parameters_of
               (with_bundler JS_BUNDLER_ZISI
                  (sample_parameters ''plain'' ''.js'' (pinned JS_BUNDLER_ESBUILD_ZISI))))
            (sample_files\<lparr>calls := [CallZipEsbuild ''/fns/plain.js'']\<rparr>))
      = Inr \<lparr>result_config = pinned JS_BUNDLER_ZISI, path = ''/out/plain.js.zip'',
             bundlerErrors = None, otherFields = [(''bundler'', ''zisi'')]\<rparr>
   \<and> zipWithFunctionWithFallback sample_nullish_env
        (sample_parameters ''plain'' ''.js'' (pinned JS_BUNDLER_ESBUILD_ZISI)) sample_files
      = (Inl JsNullish,
         sample_files\<lparr>calls := [CallZipEsbuild ''/fns/plain.js'', CallZipZisi ''/fns/plain.js'']\<rparr>)"
  by (simp add: zipWithFunctionWithFallback_def zipFunction_def sample_nullish_env_def
      sample_defs Let_def)

text \<open>
  C3, as amended. For a function whose configuration pins esbuild or ZISI there is no
  fallback: the orchestrator is one call of \<^verbatim>\<open>zipFunction\<close>. If the function is not
  pre-archived, that call does exactly what one call of the pinned bundler does: its
  result, its failure if it fails, its world.
\<close>

theorem pinned_strategy_runs_once_without_fallback:
  assumes "nodeBundler (config p) = Some b"
    and "b \<noteq> JS_BUNDLER_ESBUILD_ZISI"
  shows "zipWithFunctionWithFallback e p w = zipFunction e p w
       \<and> (extension p \<noteq> ''.zip'' \<longrightarrow>
            zipWithFunctionWithFallback e p w =
              (if b = JS_BUNDLER_ZISI then zipZisi e (zisi_parameters_of p) w
               else zipEsbuild e p w))"
  using assms by (simp add: zipWithFunctionWithFallback_def zipFunction_pinned)

theorem pinned_strategy_runs_once_without_fallback_witness:
  "nodeBundler (config (sample_parameters ''plain'' ''.js'' (pinned JS_BUNDLER_ESBUILD)))
     = Some JS_BUNDLER_ESBUILD
   \<and> JS_BUNDLER_ESBUILD \<noteq> JS_BUNDLER_ESBUILD_ZISI
   \<and> extension (sample_parameters ''plain'' ''.js'' (pinned JS_BUNDLER_ESBUILD)) \<noteq> ''.zip''
   \<and> zipEsbuild (sample_env False True)
        (sample_parameters ''plain'' ''.js'' (pinned JS_BUNDLER_ESBUILD)) sample_files
      = (Inl (JsError ''Build failed with 1 error'' (Some [''Could not resolve left-pad''])),
         sample_files\<lparr>calls := [CallZipEsbuild ''/fns/plain.js'']\<rparr>)
   \<and> zipWithFunctionWithFallback (sample_env False True)
        (sample_parameters ''plain'' ''.js'' (pinned JS_BUNDLER_ESBUILD)) sample_files
      = (Inl (JsError ''Build failed with 1 error'' (Some [''Could not resolve left-pad''])),
         sample_files\<lparr>calls := [CallZipEsbuild ''/fns/plain.js'']\<rparr>)"
proof -
  let ?p = "sample_parameters ''plain'' ''.js'' (pinned JS_BUNDLER_ESBUILD)"
  have pin: "nodeBundler (config ?p) = Some JS_BUNDLER_ESBUILD"
    by (simp add: sample_defs)
  have single: "JS_BUNDLER_ESBUILD \<noteq> JS_BUNDLER_ESBUILD_ZISI"
    by simp
  have source: "extension ?p \<noteq> ''.zip''"
    by (simp add: sample_defs)
  have engine: "zipEsbuild (sample_env False True) ?p sample_files
      = (Inl (JsError ''Build failed with 1 error'' (Some [''Could not resolve left-pad''])),
         sample_files\<lparr>calls := [CallZipEsbuild ''/fns/plain.js'']\<rparr>)"
    by (simp add: sample_defs)
  show ?thesis
    using pinned_strategy_runs_once_without_fallback
            [OF pin single, of "sample_env False True" sample_files, THEN conjunct2]
      pin single source engine
    by simp
qed

text \<open>
  C3, as stated, fails for a pre-archived function: \<^verbatim>\<open>/fns/packed.zip\<close> with esbuild
  pinned is packaged although esbuild would fail, because esbuild is never called; the
  only collaborator called is \<^verbatim>\<open>cpFile\<close>.
\<close>

theorem pinned_strategy_counterexample:
  "nodeBundler (config (sample_parameters ''packed'' ''.zip'' (pinned JS_BUNDLER_ESBUILD)))
     = Some JS_BUNDLER_ESBUILD
   \<and> fst (zipEsbuild (sample_env False True)
            (sample_parameters ''packed'' ''.zip'' (pinned JS_BUNDLER_ESBUILD)) sample_files)
      = Inl (JsError ''Build failed with 1 error'' (Some [''Could not resolve left-pad'']))
   \<and> fst (zipWithFunctionWithFallback (sample_env False True)
            (sample_parameters ''packed'' ''.zip'' (pinned JS_BUNDLER_ESBUILD)) sample_files)
      = Inr \<lparr>result_config = pinned JS_BUNDLER_ESBUILD, path = ''/out/packed.zip'',
             bundlerErrors = None, otherFields = []\<rparr>
   \<and> calls (snd (zipWithFunctionWithFallback (sample_env False True)
            (sample_parameters ''packed'' ''.zip'' (pinned JS_BUNDLER_ESBUILD)) sample_files))
      = [CallCpFile ''/fns/packed.zip'' ''/out/packed.zip'']"
  by (simp add: zipWithFunctionWithFallback_def zipFunction_def sample_defs Let_def)
text \<open>
  C4, as amended. Without a pinned bundler the default is ZISI, except when the
  extension is \<^verbatim>\<open>.ts\<close> or ES-module syntax is detected in the entry file: then it is
  esbuild. \<^verbatim>\<open>zipFunction\<close> calls the bundler so chosen on every function that is not
  pre-archived.
\<close>

theorem default_bundler_is_zisi_unless_ts_or_es_module:
  "getDefaultBundler e ext main w =
     (if ext = ''.ts'' \<or> detectEsModule e main w then JS_BUNDLER_ESBUILD else JS_BUNDLER_ZISI)
   \<and> (nodeBundler (config p) = None \<longrightarrow> extension p \<noteq> ''.zip'' \<longrightarrow>
        zipFunction e p w =
          (if extension p = ''.ts'' \<or> detectEsModule e (Some (mainFile p)) w
           then zipEsbuild e p w
           else zipZisi e (zisi_parameters_of p) w))"
  by (simp add: getDefaultBundler_def zipFunction_default)

theorem default_bundler_is_zisi_unless_ts_or_es_module_witness:
  "getDefaultBundler (sample_env True True) ''.js'' (Some ''/fns/plain.js'') sample_files
     = JS_BUNDLER_ZISI
   \<and> getDefaultBundler (sample_env True True) ''.js'' (Some ''/fns/hello.js'') sample_files
     = JS_BUNDLER_ESBUILD
   \<and> nodeBundler (config (sample_parameters ''plain'' ''.js'' empty_config)) = None
   \<and> extension (sample_parameters ''plain'' ''.js'' empty_config) \<noteq> ''.zip''
   \<and> zipFunction (sample_env True True) (sample_parameters ''plain'' ''.js'' empty_config)
        sample_files
      = (Inr \<lparr>result_config = empty_config, path = ''/out/plain.js.zip'',
              bundlerErrors = None, otherFields = [(''bundler'', ''zisi'')]\<rparr>,
         sample_files\<lparr>calls := [CallZipZisi ''/fns/plain.js'']\<rparr>)"
proof -
  let ?e = "sample_env True True"
  let ?p = "sample_parameters ''plain'' ''.js'' empty_config"
  have unpinned: "nodeBundler (config ?p) = None"
    by (simp add: sample_defs)
  have source: "extension ?p \<noteq> ''.zip''"
    by (simp add: sample_defs)
  have plain: "\<not> detectEsModule ?e (Some ''/fns/plain.js'') sample_files"
    by (simp add: sample_defs)
  have hello: "detectEsModule ?e (Some ''/fns/hello.js'') sample_files"
    by (simp add: sample_defs)
  have main: "mainFile ?p = ''/fns/plain.js''" "extension ?p = ''.js''"
    by (simp_all add: sample_defs)
  have engine: "zipZisi ?e (zisi_parameters_of ?p) sample_files
      = (Inr \<lparr>result_config = empty_config, path = ''/out/plain.js.zip'',
              bundlerErrors = None, otherFields = [(''bundler'', ''zisi'')]\<rparr>,
         sample_files\<lparr>calls := [CallZipZisi ''/fns/plain.js'']\<rparr>)"
    by (simp add: sample_defs)
  show ?thesis
    using default_bundler_is_zisi_unless_ts_or_es_module
            [of ?e "''.js''" "Some ''/fns/plain.js''" sample_files ?p]
      default_bundler_is_zisi_unless_ts_or_es_module
            [of ?e "''.js''" "Some ''/fns/hello.js''" sample_files ?p]
      unpinned source plain hello main engine
    by simp
qed

text \<open>
  C4, as stated, fails on a TypeScript function: no ES-module syntax is detected in
  \<^verbatim>\<open>/fns/typed.ts\<close> and no bundler is pinned, yet the bundler selected is esbuild and
  esbuild is what \<^verbatim>\<open>zipFunction\<close> calls.
\<close>

theorem default_bundler_counterexample:
  "nodeBundler (config (sample_parameters ''typed'' ''.ts'' empty_config)) = None
   \<and> \<not> detectEsModule (sample_env True True) (Some ''/fns/typed.ts'') sample_files
   \<and> getDefaultBundler (sample_env True True) ''.ts'' (Some ''/fns/typed.ts'') sample_files
       \<noteq> JS_BUNDLER_ZISI
   \<and> calls (snd (zipFunction (sample_env True True)
                   (sample_parameters ''typed'' ''.ts'' empty_config) sample_files))
       = [CallZipEsbuild ''/fns/typed.ts'']"
  by (simp add: getDefaultBundler_def zipFunction_def sample_defs)

text \<open>
  C5. A function whose extension is \<^verbatim>\<open>.zip\<close> is packaged by one call of \<^verbatim>\<open>cpFile\<close> from its
  source path to \<^verbatim>\<open>join(destFolder, filename)\<close>, whatever the configuration says about
  bundlers: \<^verbatim>\<open>zipFunction\<close> does what the copy does and, when the copy succeeds, resolves
  to the configuration and that destination path; no bundler takes part. The exported
  \<^verbatim>\<open>zipFunction\<close> of the runtime, fallback included, resolves to the same path in the same
  world.
\<close>

theorem archive_is_copied_whatever_the_bundler:
  assumes "extension p = ''.zip''"
  shows "zipFunction e p w =
           (case cpFile e (srcPath p) (join e (destFolder p) (filename p)) w of
              (Inl err, w') \<Rightarrow> (Inl err, w')
            | (Inr done, w') \<Rightarrow> (Inr (passthrough_result e p), w'))
       \<and> (cpFile e (srcPath p) (join e (destFolder p) (filename p)) w = (Inr done, w') \<longrightarrow>
            snd (zipWithFunctionWithFallback e p w) = w'
          \<and> (\<exists>result. fst (zipWithFunctionWithFallback e p w) = Inr result
                \<and> path result = join e (destFolder p) (filename p)
                \<and> bundlerErrors result = None \<and> otherFields result = []))"
proof (intro conjI impI)
  show "zipFunction e p w =
           (case cpFile e (srcPath p) (join e (destFolder p) (filename p)) w of
              (Inl err, w') \<Rightarrow> (Inl err, w')
            | (Inr done, w') \<Rightarrow> (Inr (passthrough_result e p), w'))"
    using assms by (rule zipFunction_archive)
next
  assume copied: "cpFile e (srcPath p) (join e (destFolder p) (filename p)) w = (Inr done, w')"
  have attempt: "zipFunction e q w = (Inr (passthrough_result e q), w')"
    if "extension q = ''.zip''" "srcPath q = srcPath p" "destFolder q = destFolder p"
      "filename q = filename p" for q
    using that copied by (simp add: zipFunction_archive)
  have plain: "zipFunction e p w = (Inr (passthrough_result e p), w')"
    using assms by (simp add: attempt)
  have first: "zipFunction e (with_bundler JS_BUNDLER_ESBUILD p) w
      = (Inr (passthrough_result e (with_bundler JS_BUNDLER_ESBUILD p)), w')"
    using assms by (simp add: attempt)
  show "snd (zipWithFunctionWithFallback e p w) = w'"
    using plain first by (simp add: zipWithFunctionWithFallback_def)
  show "\<exists>result. fst (zipWithFunctionWithFallback e p w) = Inr result
          \<and> path result = join e (destFolder p) (filename p)
          \<and> bundlerErrors result = None \<and> otherFields result = []"
    using plain first by (simp add: zipWithFunctionWithFallback_def passthrough_result_def)
qed

theorem archive_is_copied_whatever_the_bundler_witness:
  "extension (sample_parameters ''packed'' ''.zip'' (pinned JS_BUNDLER_ESBUILD_ZISI)) = ''.zip''
   \<and> cpFile (sample_env False False) ''/fns/packed.zip'' ''/out/packed.zip'' sample_files
      = (Inr (),
         sample_files\<lparr>files := (''/out/packed.zip'', ''PK-archive-bytes'') # files sample_files,
                      calls := [CallCpFile ''/fns/packed.zip'' ''/out/packed.zip'']\<rparr>)
   \<and> zipFunction (sample_env False False)
        (sample_parameters ''packed'' ''.zip'' (pinned JS_BUNDLER_ESBUILD_ZISI)) sample_files
      = (Inr \<lparr>result_config = pinned JS_BUNDLER_ESBUILD_ZISI, path = ''/out/packed.zip'',
              bundlerErrors = None, otherFields = []\<rparr>,
         sample_files\<lparr>files := (''/out/packed.zip'', ''PK-archive-bytes'') # files sample_files,
                      calls := [CallCpFile ''/fns/packed.zip'' ''/out/packed.zip'']\<rparr>)
   \<and> snd (zipWithFunctionWithFallback (sample_env False False)
        (sample_parameters ''packed'' ''.zip'' (pinned JS_BUNDLER_ESBUILD_ZISI)) sample_files)
      = sample_files\<lparr>files := (''/out/packed.zip'', ''PK-archive-bytes'') # files sample_files,
                      calls := [CallCpFile ''/fns/packed.zip'' ''/out/packed.zip'']\<rparr>"
proof -
  let ?e = "sample_env False False"
  let ?p = "sample_parameters ''packed'' ''.zip'' (pinned JS_BUNDLER_ESBUILD_ZISI)"
  let ?w = "sample_files\<lparr>files := (''/out/packed.zip'', ''PK-archive-bytes'') # files sample_files,
                      calls := [CallCpFile ''/fns/packed.zip'' ''/out/packed.zip'']\<rparr>"
  have archive: "extension ?p = ''.zip''"
    by (simp add: sample_defs)
  have copied: "cpFile ?e (srcPath ?p) (join ?e (destFolder ?p) (filename ?p)) sample_files
      = (Inr (), ?w)"
    by (simp add: sample_defs)
  have result: "passthrough_result ?e ?p
      = \<lparr>result_config = pinned JS_BUNDLER_ESBUILD_ZISI, path = ''/out/packed.zip'',
          bundlerErrors = None, otherFields = []\<rparr>"
    by (simp add: sample_defs)
  have arguments: "srcPath ?p = ''/fns/packed.zip''"
    "join ?e (destFolder ?p) (filename ?p) = ''/out/packed.zip''"
    by (simp_all add: sample_defs)
  show ?thesis
    using archive_is_copied_whatever_the_bundler [OF archive, of ?e sample_files "()" ?w]
      archive copied result arguments
    by simp
qed

section \<open>Listing functions and their files\<close>

text \<open>
  C8. \<^verbatim>\<open>listFunctions\<close> is discovery and nothing more: once the directories are listed
  and the functions found in them, it resolves, in the world discovery has left, to one
  record for each function found, in order, holding that function's name, main file,
  runtime name, extension and schedule. No runtime lister and no packaging function is
  called on the way.
\<close>

theorem listFunctions_is_discovery_only:
  assumes "listFunctionsDirectories e (resolveFunctionsDirectories e folders) w = (Inr paths, w1)"
    and "getFunctionsFromPaths e paths (getFlags e (option_featureFlags opts)) (option_config opts) w1
           = (Inr functions, w2)"
  shows "listFunctions e folders opts w =
           (Inr (map (\<lambda>(key, func).
                    \<lparr>listed_name = name func,
                     listed_mainFile = mainFile func,
                     listed_runtime = runtime_name (runtime func),
                     listed_extension = extension func,
                     listed_schedule = schedule (config func)\<rparr>) functions), w2)"
  using assms by (simp add: listFunctions_def getListedFunction_def case_prod_beta comp_def)

theorem listFunctions_is_discovery_only_witness:
  "listFunctionsDirectories (sample_env True True)
     (resolveFunctionsDirectories (sample_env True True) [''/list'']) sample_files
   = (Inr [''/list/*''],
      sample_files\<lparr>calls := [CallListFunctionsDirectories [''/list'']]\<rparr>)
   \<and> getFunctionsFromPaths (sample_env True True) [''/list/*''] [] None
       (sample_files\<lparr>calls := [CallListFunctionsDirectories [''/list'']]\<rparr>)
   = (Inr sample_functions,
      sample_files\<lparr>calls := [CallListFunctionsDirectories [''/list''],
                               CallGetFunctionsFromPaths [''/list/*'']]\<rparr>)
   \<and> listFunctions (sample_env True True) [''/list'']
     \<lparr>option_basePath = None, option_config = None, option_featureFlags = None\<rparr> sample_files
   = (Inr [\<lparr>listed_name = ''test'', listed_mainFile = ''/list/test'', listed_runtime = ''go'',
            listed_extension = [], listed_schedule = None\<rparr>,
           \<lparr>listed_name = ''test.zip'', listed_mainFile = ''/list/test.zip'', listed_runtime = ''js'',
            listed_extension = ''.zip'', listed_schedule = None\<rparr>,
           \<lparr>listed_name = ''two'', listed_mainFile = ''/list/two/two.js'', listed_runtime = ''js'',
            listed_extension = ''.js'', listed_schedule = Some ''@daily''\<rparr>],
      sample_files\<lparr>calls := [CallListFunctionsDirectories [''/list''],
                               CallGetFunctionsFromPaths [''/list/*'']]\<rparr>)"
proof -
  let ?e = "sample_env True True"
  let ?opts = "\<lparr>option_basePath = None, option_config = None, option_featureFlags = None\<rparr>"
  let ?w1 = "sample_files\<lparr>calls := [CallListFunctionsDirectories [''/list'']]\<rparr>"
  let ?w2 = "sample_files\<lparr>calls := [CallListFunctionsDirectories [''/list''],
                               CallGetFunctionsFromPaths [''/list/*'']]\<rparr>"
  have listed: "listFunctionsDirectories ?e (resolveFunctionsDirectories ?e [''/list'']) sample_files
      = (Inr [''/list/*''], ?w1)"
    by (simp add: sample_defs)
  have found: "getFunctionsFromPaths ?e [''/list/*''] (getFlags ?e (option_featureFlags ?opts))
      (option_config ?opts) ?w1 = (Inr sample_functions, ?w2)"
    by (simp add: sample_defs)
  have flags: "getFlags ?e (option_featureFlags ?opts) = []" "option_config ?opts = None"
    by (simp_all add: sample_defs)
  from listFunctions_is_discovery_only [OF listed found]
  have "listFunctions ?e [''/list''] ?opts sample_files
      = (Inr [\<lparr>listed_name = ''test'', listed_mainFile = ''/list/test'', listed_runtime = ''go'',
            listed_extension = [], listed_schedule = None\<rparr>,
           \<lparr>listed_name = ''test.zip'', listed_mainFile = ''/list/test.zip'', listed_runtime = ''js'',
            listed_extension = ''.zip'', listed_schedule = None\<rparr>,
           \<lparr>listed_name = ''two'', listed_mainFile = ''/list/two/two.js'', listed_runtime = ''js'',
            listed_extension = ''.js'', listed_schedule = Some ''@daily''\<rparr>], ?w2)"
    by (simp add: sample_functions_def sample_function_def node_runtime_def RUNTIME_JS_def
        empty_config_def)
  with listed found flags show ?thesis
    by simp
qed

text \<open>
  C9. For a function whose extension is \<^verbatim>\<open>.zip\<close>, and for a function whose runtime has no
  lister, \<^verbatim>\<open>getSrcFiles\<close> resolves to the list that holds the function's own source path
  and nothing else, and leaves the world as it was: no lister of a runtime is called.
\<close>

theorem getSrcFiles_of_archive_or_listerless_runtime:
  assumes "extension func = ''.zip'' \<or> runtime_getSrcFiles (runtime func) = None"
  shows "getSrcFiles func options w = (Inr [srcPath func], w)"
  using assms by (auto simp add: getSrcFiles_def)

theorem getSrcFiles_of_archive_or_listerless_runtime_witness:
  "runtime_getSrcFiles (runtime (snd (sample_functions ! 0))) = None
   \<and> extension (snd (sample_functions ! 1)) = ''.zip''
   \<and> getSrcFiles (snd (sample_functions ! 0)) (None, []) sample_files
     = (Inr [''/list/test''], sample_files)
   \<and> getSrcFiles (snd (sample_functions ! 1)) (None, []) sample_files
     = (Inr [''/list/test.zip''], sample_files)
   \<and> runtime_getSrcFiles (runtime (snd (sample_functions ! 1))) \<noteq> None"
proof -
  have go: "extension (snd (sample_functions ! 0)) = ''.zip''
      \<or> runtime_getSrcFiles (runtime (snd (sample_functions ! 0))) = None"
    by (simp add: sample_functions_def sample_function_def)
  have archive: "extension (snd (sample_functions ! 1)) = ''.zip''
      \<or> runtime_getSrcFiles (runtime (snd (sample_functions ! 1))) = None"
    by (simp add: sample_functions_def sample_function_def)
  show ?thesis
    using getSrcFiles_of_archive_or_listerless_runtime [OF go, of "(None, [])" sample_files]
      getSrcFiles_of_archive_or_listerless_runtime [OF archive, of "(None, [])" sample_files]
    by (simp add: sample_functions_def sample_function_def node_runtime_def)
qed

lemma promise_all_resolved:
  assumes "promise_all tasks w = (Inr values, w')"
  shows "list_all2 (\<lambda>task v. \<exists>w0 w0'. task w0 = (Inr v, w0')) tasks values"
  using assms
proof (induction tasks arbitrary: w "values" w')
  case Nil
  then show ?case by simp
next
  case (Cons task tasks)
  obtain r w1 where head: "task w = (r, w1)"
    by (cases "task w")
  obtain rs w2 where tail: "promise_all tasks w1 = (rs, w2)"
    by (cases "promise_all tasks w1")
  from Cons.prems head tail obtain v vs
    where r: "r = Inr v" and rs: "rs = Inr vs" and vals: "values = v # vs"
    by (auto split: sum.splits)
  from Cons.IH tail rs
  have "list_all2 (\<lambda>task v. \<exists>w0 w0'. task w0 = (Inr v, w0')) tasks vs"
    by simp
  moreover from head r have "\<exists>w0 w0'. task w0 = (Inr v, w0')"
    by blast
  ultimately show ?case
    using vals by simp
qed

lemma getListedFunctionFiles_resolved:
  assumes "getListedFunctionFiles e func options w = (Inr records, w')"
  shows "\<exists>srcFiles. getSrcFiles func options w = (Inr srcFiles, w')
           \<and> records = listed_files_of e func srcFiles"
  using assms
  by (auto simp add: getListedFunctionFiles_def listed_files_of_def split: prod.splits sum.splits)

text \<open>
  C10. What \<^verbatim>\<open>listFunctionsFiles\<close> resolves to is, function by function in the order of
  discovery, the source files that \<^verbatim>\<open>getSrcFiles\<close> resolves to for that function, each
  turned into one record: the record's \<^verbatim>\<open>srcFile\<close> is the file, its extension is
  \<^verbatim>\<open>extname\<close> of that file, and its name, main file and runtime name are those of the
  function the file was listed for. The extension of a record need not be the extension
  of its function: in the sample run \<^verbatim>\<open>/list/two/three.json\<close> is listed for the function
  \<^verbatim>\<open>two\<close>, whose extension is \<^verbatim>\<open>.js\<close>.
\<close>

theorem listed_file_has_extension_of_its_source_file:
  assumes "listFunctionsDirectories e (resolveFunctionsDirectories e folders) w = (Inr paths, w1)"
    and "getFunctionsFromPaths e paths (getFlags e (option_featureFlags opts)) (option_config opts) w1
           = (Inr functions, w2)"
    and "listFunctionsFiles e folders opts w = (Inr records, w3)"
  shows "(\<exists>groups.
           records = concat groups
         \<and> list_all2
             (\<lambda>func group.
                \<exists>w0 w0' srcFiles.
                  getSrcFiles func (option_basePath opts, getFlags e (option_featureFlags opts)) w0
                    = (Inr srcFiles, w0')
                \<and> group =
                    map (\<lambda>file.
                           \<lparr>listed_name = name func,
                            listed_mainFile = mainFile func,
                            listed_runtime = runtime_name (runtime func),
                            listed_extension = extname e file,
                            listed_schedule = None,
                            srcFile = file\<rparr>) srcFiles)
             (map snd functions) groups)
       \<and> (\<forall>r \<in> set records. listed_extension r = extname e (srcFile r))"
proof -
  let ?options = "(option_basePath opts, getFlags e (option_featureFlags opts))"
  let ?task = "\<lambda>func. getListedFunctionFiles e func ?options"
  from assms obtain groups where
    all: "promise_all (map ?task (map snd functions)) w2 = (Inr groups, w3)"
    and flat: "records = concat groups"
    by (auto simp add: listFunctionsFiles_def split: prod.splits sum.splits)
  from promise_all_resolved [OF all]
  have "list_all2 (\<lambda>func group. \<exists>w0 w0'. ?task func w0 = (Inr group, w0'))
          (map snd functions) groups"
    by (simp add: list_all2_map1)
  then have tied: "list_all2
      (\<lambda>func group. \<exists>w0 w0' srcFiles.
           getSrcFiles func ?options w0 = (Inr srcFiles, w0')
         \<and> group = listed_files_of e func srcFiles)
      (map snd functions) groups"
    by (rule list_all2_mono) (blast dest: getListedFunctionFiles_resolved)
  have "listed_extension r = extname e (srcFile r)" if "r \<in> set records" for r
  proof -
    from that flat obtain group where group: "group \<in> set groups" and r: "r \<in> set group"
      by auto
    from group obtain i where "i < length groups" and "groups ! i = group"
      by (auto simp add: in_set_conv_nth)
    with tied obtain func srcFiles where "group = listed_files_of e func srcFiles"
      by (auto simp add: list_all2_conv_all_nth)
    with r show ?thesis
      by (auto simp add: listed_files_of_def)
  qed
  with flat tied show ?thesis
    unfolding listed_files_of_def by blast
qed

theorem listed_file_has_extension_of_its_source_file_witness:
  "listFunctionsDirectories (sample_env True True)
     (resolveFunctionsDirectories (sample_env True True) [''/list'']) sample_files
   = (Inr [''/list/*''],
      sample_files\<lparr>calls := [CallListFunctionsDirectories [''/list'']]\<rparr>)
   \<and> getFunctionsFromPaths (sample_env True True) [''/list/*''] [] None
       (sample_files\<lparr>calls := [CallListFunctionsDirectories [''/list'']]\<rparr>)
   = (Inr sample_functions,
      sample_files\<lparr>calls := [CallListFunctionsDirectories [''/list''],
                               CallGetFunctionsFromPaths [''/list/*'']]\<rparr>)
   \<and> listFunctionsFiles (sample_env True True) [''/list'']
     \<lparr>option_basePath = None, option_config = None, option_featureFlags = None\<rparr> sample_files
   = (Inr [\<lparr>listed_name = ''test'', listed_mainFile = ''/list/test'', listed_runtime = ''go'',
            listed_extension = [], listed_schedule = None, srcFile = ''/list/test''\<rparr>,
           \<lparr>listed_name = ''test.zip'', listed_mainFile = ''/list/test.zip'', listed_runtime = ''js'',
            listed_extension = ''.zip'', listed_schedule = None, srcFile = ''/list/test.zip''\<rparr>,
           \<lparr>listed_name = ''two'', listed_mainFile = ''/list/two/two.js'', listed_runtime = ''js'',
            listed_extension = ''.json'', listed_schedule = None,
            srcFile = ''/list/two/three.json''\<rparr>,
           \<lparr>listed_name = ''two'', listed_mainFile = ''/list/two/two.js'', listed_runtime = ''js'',
            listed_extension = ''.js'', listed_schedule = None, srcFile = ''/list/two/two.js''\<rparr>],
      sample_files\<lparr>calls := [CallListFunctionsDirectories [''/list''],
                               CallGetFunctionsFromPaths [''/list/*''],
                               CallNodeGetSrcFiles ''/list/two'' JS_BUNDLER_ZISI]\<rparr>)
   \<and> (\<exists>groups.
         [\<lparr>listed_name = ''test'', listed_mainFile = ''/list/test'', listed_runtime = ''go'',
            listed_extension = [], listed_schedule = None, srcFile = ''/list/test''\<rparr>,
           \<lparr>listed_name = ''test.zip'', listed_mainFile = ''/list/test.zip'', listed_runtime = ''js'',
            listed_extension = ''.zip'', listed_schedule = None, srcFile = ''/list/test.zip''\<rparr>,
           \<lparr>listed_name = ''two'', listed_mainFile = ''/list/two/two.js'', listed_runtime = ''js'',
            listed_extension = ''.json'', listed_schedule = None,
            srcFile = ''/list/two/three.json''\<rparr>,
           \<lparr>listed_name = ''two'', listed_mainFile = ''/list/two/two.js'', listed_runtime = ''js'',
            listed_extension = ''.js'', listed_schedule = None, srcFile = ''/list/two/two.js''\<rparr>]
           = concat groups
       \<and> list_all2
           (\<lambda>func group.
              \<exists>w0 w0' srcFiles.
                getSrcFiles func (None, []) w0 = (Inr srcFiles, w0')
              \<and> group =
                  map (\<lambda>file.
                         \<lparr>listed_name = name func,
                          listed_mainFile = mainFile func,
                          listed_runtime = runtime_name (runtime func),
                          listed_extension = extname (sample_env True True) file,
                          listed_schedule = None,
                          srcFile = file\<rparr>) srcFiles)
           (map snd sample_functions) groups)
   \<and> extension (snd (sample_functions ! 2)) = ''.js''
   \<and> name (snd (sample_functions ! 2)) = ''two''
   \<and> mainFile (snd (sample_functions ! 2)) = ''/list/two/two.js''
   \<and> runtime_name (runtime (snd (sample_functions ! 2))) = ''js''"
proof -
  let ?e = "sample_env True True"
  let ?opts = "\<lparr>option_basePath = None, option_config = None, option_featureFlags = None\<rparr>"
  let ?w1 = "sample_files\<lparr>calls := [CallListFunctionsDirectories [''/list'']]\<rparr>"
  let ?w2 = "sample_files\<lparr>calls := [CallListFunctionsDirectories [''/list''],
                               CallGetFunctionsFromPaths [''/list/*'']]\<rparr>"
  let ?w3 = "sample_files\<lparr>calls := [CallListFunctionsDirectories [''/list''],
                               CallGetFunctionsFromPaths [''/list/*''],
                               CallNodeGetSrcFiles ''/list/two'' JS_BUNDLER_ZISI]\<rparr>"
  let ?records =
    "[\<lparr>listed_name = ''test'', listed_mainFile = ''/list/test'', listed_runtime = ''go'',
            listed_extension = [], listed_schedule = None, srcFile = ''/list/test''\<rparr>,
           \<lparr>listed_name = ''test.zip'', listed_mainFile = ''/list/test.zip'', listed_runtime = ''js'',
            listed_extension = ''.zip'', listed_schedule = None, srcFile = ''/list/test.zip''\<rparr>,
           \<lparr>listed_name = ''two'', listed_mainFile = ''/list/two/two.js'', listed_runtime = ''js'',
            listed_extension = ''.json'', listed_schedule = None,
            srcFile = ''/list/two/three.json''\<rparr>,
           \<lparr>listed_name = ''two'', listed_mainFile = ''/list/two/two.js'', listed_runtime = ''js'',
            listed_extension = ''.js'', listed_schedule = None, srcFile = ''/list/two/two.js''\<rparr>]"
  have listed: "listFunctionsDirectories ?e (resolveFunctionsDirectories ?e [''/list'']) sample_files
      = (Inr [''/list/*''], ?w1)"
    by (simp add: sample_defs)
  have found: "getFunctionsFromPaths ?e [''/list/*''] (getFlags ?e (option_featureFlags ?opts))
      (option_config ?opts) ?w1 = (Inr sample_functions, ?w2)"
    by (simp add: sample_defs)
  have flags: "getFlags ?e (option_featureFlags ?opts) = []" "option_config ?opts = None"
    "option_basePath ?opts = None"
    by (simp_all add: sample_defs)
  have files: "listFunctionsFiles ?e [''/list''] ?opts sample_files = (Inr ?records, ?w3)"
    by (simp add: listFunctionsFiles_def getListedFunctionFiles_def getSrcFiles_def
        getSrcFilesWithBundler_def getDefaultBundler_def sample_functions_def
        sample_function_def node_runtime_def RUNTIME_JS_def function_data.truncate_def
        sample_defs)
  have two: "extension (snd (sample_functions ! 2)) = ''.js''"
    "name (snd (sample_functions ! 2)) = ''two''"
    "mainFile (snd (sample_functions ! 2)) = ''/list/two/two.js''"
    "runtime_name (runtime (snd (sample_functions ! 2))) = ''js''"
    by (simp_all add: sample_functions_def sample_function_def node_runtime_def RUNTIME_JS_def)
  note grouped =
    listed_file_has_extension_of_its_source_file [OF listed found files, THEN conjunct1]
  from grouped flags have "\<exists>groups.
         ?records = concat groups
       \<and> list_all2
           (\<lambda>func group.
              \<exists>w0 w0' srcFiles.
                getSrcFiles func (None, []) w0 = (Inr srcFiles, w0')
              \<and> group =
                  map (\<lambda>file.
                         \<lparr>listed_name = name func,
                          listed_mainFile = mainFile func,
                          listed_runtime = runtime_name (runtime func),
                          listed_extension = extname ?e file,
                          listed_schedule = None,
                          srcFile = file\<rparr>) srcFiles)
           (map snd sample_functions) groups"
    by simp
  with listed found flags files two show ?thesis
    by simp
qed

section \<open>The bundler of the listing path and the bundler of the packaging path\<close>

text \<open>
  C6 does not hold of the code. \<^verbatim>\<open>getSrcFilesWithBundler\<close> asks for the default bundler
  without the main file, \<^verbatim>\<open>zipFunction\<close> asks for it with the main file. For the ES
  module \<^verbatim>\<open>/fns/hello.js\<close> with no bundler pinned, the lister is called with ZISI while
  packaging calls esbuild.
\<close>

theorem listing_and_packaging_bundlers_diverge:
  "config (function_data.truncate (sample_parameters ''hello'' ''.js'' empty_config))
     = config (sample_parameters ''hello'' ''.js'' empty_config)
   \<and> calls (snd (getSrcFilesWithBundler (sample_env True True)
                   (function_data.truncate (sample_parameters ''hello'' ''.js'' empty_config))
                   (None, []) sample_files))
       = [CallNodeGetSrcFiles ''/fns/hello.js'' JS_BUNDLER_ZISI]
   \<and> calls (snd (zipFunction (sample_env True True)
                   (sample_parameters ''hello'' ''.js'' empty_config) sample_files))
       = [CallZipEsbuild ''/fns/hello.js'']
   \<and> calls (snd (zipWithFunctionWithFallback (sample_env True True)
                   (sample_parameters ''hello'' ''.js'' empty_config) sample_files))
       = [CallZipEsbuild ''/fns/hello.js'']"
  by (simp add: getSrcFilesWithBundler_def zipWithFunctionWithFallback_def zipFunction_def
      getDefaultBundler_def function_data.truncate_def sample_defs)

text \<open>
  Where the two paths do agree: a pinned bundler, a TypeScript function, or a probe that
  answers the same with and without the main file.
\<close>

lemma listing_and_packaging_defaults_agree:
  assumes "ext = ''.ts'' \<or> detectEsModule e None w = detectEsModule e (Some main) w"
  shows "getDefaultBundler e ext None w = getDefaultBundler e ext (Some main) w"
  using assms by (auto simp add: getDefaultBundler_def)

section \<open>Determinism of the archive\<close>

lemma filter_same_key_singleton:
  assumes "distinct (map f zs)" and "k \<in> set zs"
  shows "filter (\<lambda>x. f k = f x) zs = [k]"
  using assms
proof (induction zs)
  case Nil
  then show ?case by simp
next
  case (Cons z zs)
  show ?case
  proof (cases "k = z")
    case True
    with Cons.prems have "\<forall>x \<in> set zs. f k \<noteq> f x"
      by auto
    then have "filter (\<lambda>x. f k = f x) zs = []"
      by (simp add: filter_empty_conv)
    with True show ?thesis by simp
  next
    case False
    with Cons.prems have inside: "k \<in> set zs"
      by auto
    from Cons.prems have fresh: "f z \<notin> f ` set zs" and rest: "distinct (map f zs)"
      by auto
    from inside fresh have "f k \<noteq> f z"
      by (metis imageI)
    with Cons.IH [OF rest inside] show ?thesis by simp
  qed
qed

lemma sort_key_of_permutation:
  assumes unique: "distinct (map f xs)" and same: "mset ys = mset xs"
  shows "sort_key f ys = sort_key f xs"
proof (rule properties_for_sort_key)
  show "mset (sort_key f xs) = mset ys"
    using same by simp
  show "sorted (map f (sort_key f xs))"
    by simp
  fix k
  assume "k \<in> set (sort_key f xs)"
  then have in_xs: "k \<in> set xs"
    by simp
  with same have in_ys: "k \<in> set ys"
    by (metis set_mset_mset)
  have "mset (map f ys) = mset (map f xs)"
    using same by (metis mset_map)
  with unique have unique_ys: "distinct (map f ys)"
    by (metis mset_eq_imp_distinct_iff)
  have sorted_unique: "distinct (map f (sort_key f xs))"
    using unique by (metis mset_eq_imp_distinct_iff mset_map mset_sort)
  have "filter (\<lambda>x. f k = f x) (sort_key f xs) = [k]"
    using sorted_unique in_xs by (intro filter_same_key_singleton) simp_all
  moreover have "filter (\<lambda>x. f k = f x) ys = [k]"
    using unique_ys in_ys by (rule filter_same_key_singleton)
  ultimately show "filter (\<lambda>x. f k = f x) (sort_key f xs) = filter (\<lambda>x. f k = f x) ys"
    by simp
qed

text \<open>
  C7. Packaging one function twice from unchanged sources gives the assembler the same
  files, each path once, perhaps in another traversal order and at another wall-clock
  time. The two archives have the same entries, hence the same bytes under any archive
  writer and the same checksum under any checksum function.
\<close>

theorem assembled_archive_is_deterministic:
  assumes "distinct (map file_path outputs)"
    and "mset outputs' = mset outputs"
  shows "assemble now compiled outputs = assemble now' compiled outputs'
       \<and> archive_bytes write_entry (assemble now compiled outputs)
           = archive_bytes write_entry (assemble now' compiled outputs')
       \<and> checksum (archive_bytes write_entry (assemble now compiled outputs))
           = checksum (archive_bytes write_entry (assemble now' compiled outputs'))"
proof -
  from sort_key_of_permutation [OF assms]
  have "assemble now compiled outputs = assemble now' compiled outputs'"
    by (simp add: assemble_def)
  then show ?thesis
    by simp
qed

theorem assembled_archive_is_deterministic_witness:
  "distinct (map file_path
      [\<lparr>file_path = ''src/b.js'', file_mode = 420, file_bytes = ''module.exports = 2''\<rparr>,
       \<lparr>file_path = ''a.js'', file_mode = 493, file_bytes = ''require(./src/b)''\<rparr>])
   \<and> mset
       [\<lparr>file_path = ''a.js'', file_mode = 493, file_bytes = ''require(./src/b)''\<rparr>,
        \<lparr>file_path = ''src/b.js'', file_mode = 420, file_bytes = ''module.exports = 2''\<rparr>]
     = mset
       [\<lparr>file_path = ''src/b.js'', file_mode = 420, file_bytes = ''module.exports = 2''\<rparr>,
        \<lparr>file_path = ''a.js'', file_mode = 493, file_bytes = ''require(./src/b)''\<rparr>]
   \<and> assemble 1700000000 None
       [\<lparr>file_path = ''src/b.js'', file_mode = 420, file_bytes = ''module.exports = 2''\<rparr>,
        \<lparr>file_path = ''a.js'', file_mode = 493, file_bytes = ''require(./src/b)''\<rparr>]
     = assemble 1700000060 None
       [\<lparr>file_path = ''a.js'', file_mode = 493, file_bytes = ''require(./src/b)''\<rparr>,
        \<lparr>file_path = ''src/b.js'', file_mode = 420, file_bytes = ''module.exports = 2''\<rparr>]
   \<and> assemble 1700000000 None
       [\<lparr>file_path = ''src/b.js'', file_mode = 420, file_bytes = ''module.exports = 2''\<rparr>,
        \<lparr>file_path = ''a.js'', file_mode = 493, file_bytes = ''require(./src/b)''\<rparr>]
     = [\<lparr>entry_name = ''a.js'', entry_mode = 493, entry_mtime = 0,
         entry_bytes = ''require(./src/b)''\<rparr>,
        \<lparr>entry_name = ''src/b.js'', entry_mode = 420, entry_mtime = 0,
         entry_bytes = ''module.exports = 2''\<rparr>]"
proof -
  let ?b = "\<lparr>file_path = ''src/b.js'', file_mode = 420, file_bytes = ''module.exports = 2''\<rparr>"
  let ?a = "\<lparr>file_path = ''a.js'', file_mode = 493, file_bytes = ''require(./src/b)''\<rparr>"
  have unique: "distinct (map file_path [?b, ?a])"
    by simp
  have same: "mset [?a, ?b] = mset [?b, ?a]"
    by (simp add: add_mset_commute)
  have entries: "assemble 1700000000 None [?b, ?a]
      = [\<lparr>entry_name = ''a.js'', entry_mode = 493, entry_mtime = 0,
          entry_bytes = ''require(./src/b)''\<rparr>,
         \<lparr>entry_name = ''src/b.js'', entry_mode = 420, entry_mtime = 0,
          entry_bytes = ''module.exports = 2''\<rparr>]"
    by (simp add: assemble_def FIXED_MTIME_def)
  show ?thesis
    using assembled_archive_is_deterministic
            [OF unique same, of 1700000000 None 1700000060 entry_bytes length]
      unique same entries
    by simp
qed

end
